theory Spec2Isabelle
  imports
    Complex_Main
    "HOL-Library.Sublist"
    "HOL-Library.Multiset"
    "HOL-Library.Char_ord"
    "HOL-Library.List_Lexorder"
    "HOL-Library.Log_Nat"
begin

section \<open>Uncle's Radar: the screening pipeline of app.py\<close>

text \<open>
  The script reads an insider-trading table, resolves four columns by keyword,
  keeps the rows of promoters buying on the open market, sums the transaction value per
  SYMBOL, ranks the companies, enriches the top N with quote data and splits them by
  three thresholds.

  Conventions of the embedding:
  \<^item> text is \<open>string\<close>, a character being a code point below 256; \<open>str.lower\<close> and
    \<open>str.strip\<close> are Python's on these code points;
  \<^item> a finite float64 is the rational number it denotes (\<open>rat\<close>), and every float
    operation is the exact operation followed by \<open>fl\<close>, the rounding to the nearest
    float64 with ties to the even significand; an int64 is an \<open>int\<close> with the
    wrap-around \<open>wrap64\<close> written out; a missing value is \<open>NaN\<close>;
  \<^item> a DataFrame is its list of column labels and its rows, each row a list of cells
    in column order; a column has the dtype that \<open>read_csv\<close> gives it: \<open>object\<close> when
    it holds text (or the table has no rows), \<open>int64\<close> when every cell is an integer,
    \<open>float64\<close> otherwise;
  \<^item> what the libraries decide outside these rules (how text parses as a number, which
    permutation \<open>argsort\<close> returns for equal keys, what the quote service answers) is a
    parameter.
\<close>

subsection \<open>Text\<close>

text \<open>
  \<open>str.lower\<close> on code points below 256: the letters A to Z, and the capital letters
  from U+00C0 to U+00DE except the multiplication sign U+00D7, move up by 32.
\<close>

definition lower_char :: "char \<Rightarrow> char" where
  "lower_char c =
     (let n = (of_char c :: nat)
      in if (65 \<le> n \<and> n \<le> 90) \<or> (192 \<le> n \<and> n \<le> 222 \<and> n \<noteq> 215)
         then char_of (n + 32) else c)"

definition lower :: "string \<Rightarrow> string" where
  "lower s = map lower_char s"

text \<open>Python's \<open>a in b\<close> on strings: \<open>a\<close> occurs in \<open>b\<close> as a contiguous run.\<close>

definition str_in :: "string \<Rightarrow> string \<Rightarrow> bool" where
  "str_in a b = sublist a b"

text \<open>
  The white space \<open>str.strip\<close> removes, among code points below 256: U+0009 to
  U+000D, U+001C to U+0020, the next-line character U+0085 and the no-break space U+00A0.
\<close>

definition is_space :: "char \<Rightarrow> bool" where
  "is_space c =
     (let n = (of_char c :: nat)
      in (9 \<le> n \<and> n \<le> 13) \<or> (28 \<le> n \<and> n \<le> 32) \<or> n = 133 \<or> n = 160)"

definition strip :: "string \<Rightarrow> string" where
  "strip s = rev (dropWhile is_space (rev (dropWhile is_space s)))"

text \<open>Line 50: \<open>df.columns.str.replace('\n', '', regex=False).str.strip()\<close>.\<close>

definition normalize_col :: "string \<Rightarrow> string" where
  "normalize_col c = strip (filter (\<lambda>ch. ch \<noteq> CHR 0x0A) c)"

subsection \<open>Schema resolver\<close>

text \<open>Line 38: \<open>all(k.lower() in col.lower() for k in keywords)\<close>.\<close>

definition has_keywords :: "string list \<Rightarrow> string \<Rightarrow> bool" where
  "has_keywords keywords col = list_all (\<lambda>k. str_in (lower k) (lower col)) keywords"

text \<open>
  Lines 36-40: the loop returns the first column, in column order, that has the
  keywords, and \<open>None\<close> when it ends without a match.
\<close>

fun get_col_name :: "string list \<Rightarrow> string list \<Rightarrow> string option" where
  "get_col_name [] keywords = None"
| "get_col_name (col # cols) keywords =
     (if has_keywords keywords col then Some col else get_col_name cols keywords)"

text \<open>Python truthiness of an optional string: \<open>None\<close> and \<open>""\<close> are falsy.\<close>

definition truthy :: "string option \<Rightarrow> bool" where
  "truthy x = (case x of None \<Rightarrow> False | Some s \<Rightarrow> s \<noteq> [])"

datatype error = SchemaMismatch | KeyError string | AttributeError | TypeError | ValueError

record binding =
  person_col :: string
  type_col :: string
  val_col :: string
  mode_col :: string

text \<open>Lines 57-65: the four lookups, the fallback for the type column, and the stop.\<close>

definition column_mapping :: "string list \<Rightarrow> error + binding" where
  "column_mapping cols =
     (let person = get_col_name cols [''Category'', ''Person''];
          type0 = get_col_name cols [''Transaction'', ''Type''];
          type1 = (if \<not> truthy type0 then get_col_name cols [''Acquis'', ''Dispos'']
                   else type0);
          val = get_col_name cols [''Value'', ''Security''];
          mode = get_col_name cols [''Mode'', ''Acquis'']
      in if \<not> list_all truthy [person, type1, val, mode] then Inl SchemaMismatch
         else Inr \<lparr>person_col = the person, type_col = the type1,
                   val_col = the val, mode_col = the mode\<rparr>)"

subsection \<open>Numbers\<close>

text \<open>Rounding to the nearest integer, halves to the even neighbour (\<open>rint\<close>).\<close>

definition round_half_even :: "rat \<Rightarrow> int" where
  "round_half_even x =
     (let f = \<lfloor>x\<rfloor>; d = x - of_int f
      in if d < 1 / 2 then f else if 1 / 2 < d then f + 1
         else if even f then f else f + 1)"

definition pow2 :: "int \<Rightarrow> rat" where
  "pow2 k = (if 0 \<le> k then 2 ^ nat k else 1 / 2 ^ nat (- k))"

text \<open>The exponent \<open>e\<close> of a positive number: \<open>2 ^ e \<le> x < 2 ^ (e + 1)\<close>.\<close>

definition ilog2 :: "rat \<Rightarrow> int" where
  "ilog2 x = (if 1 \<le> x then bitlen \<lfloor>x\<rfloor> - 1 else - bitlen (\<lceil>1 / x\<rceil> - 1))"

text \<open>
  The float64 nearest to a number, ties to the even significand: 53 significant bits,
  the exponent not below -1022 (smaller numbers are subnormal). Numbers of magnitude
  \<open>2 ^ 1024\<close> and more, which the machine turns into infinities, are not modelled.
\<close>

definition fl :: "rat \<Rightarrow> rat" where
  "fl x =
     (if x = 0 then 0
      else let e = max (ilog2 \<bar>x\<bar>) (- 1022); u = pow2 (e - 52)
           in of_int (round_half_even (x / u)) * u)"

text \<open>
  Python's \<open>round(x, 2)\<close> on the float nearest to its argument (line 143): the float's
  exact value is rounded to two decimals, halves to even, and the float nearest to that
  decimal is returned.
\<close>

definition round2 :: "rat \<Rightarrow> rat" where
  "round2 y = fl (of_int (round_half_even (fl y * 100)) / 100)"

text \<open>
  \<open>round\<close> of a float64 Series (line 78) is numpy's: the float nearest to the
  argument is multiplied by 100 as a float, rounded to an integer by \<open>rint\<close> and divided
  by 100 as a float.
\<close>

definition np_round2 :: "rat \<Rightarrow> rat" where
  "np_round2 y = fl (of_int (round_half_even (fl (fl y * 100))) / 100)"

text \<open>An int64 result: the integer reduced modulo \<open>2 ^ 64\<close> into the signed range.\<close>

definition wrap64 :: "int \<Rightarrow> int" where
  "wrap64 i = (i + 2 ^ 63) mod 2 ^ 64 - 2 ^ 63"

subsection \<open>Tables\<close>

text \<open>A number read from the file or parsed from text is an integer or a float.\<close>

datatype num = IntV int | FloatV rat

datatype cell = NaN | Str string | Num num

record dataframe =
  columns :: "string list"
  rows :: "cell list list"

datatype dtype = ObjectT | Int64T | Float64T

fun col_pos :: "string list \<Rightarrow> string \<Rightarrow> nat option" where
  "col_pos [] c = None"
| "col_pos (x # xs) c = (if x = c then Some 0 else map_option Suc (col_pos xs c))"

text \<open>
  \<open>df[label]\<close>, to be used as one column. A label that is no column of the frame
  raises \<open>KeyError\<close>. A label that several columns carry selects a DataFrame, not a
  Series, and the operation applied to it raises the error \<open>dup\<close>: \<open>.str\<close> an
  \<open>AttributeError\<close>, \<open>to_numeric\<close> a \<open>TypeError\<close>, \<open>groupby\<close> a \<open>ValueError\<close>.
\<close>

definition get_pos :: "error \<Rightarrow> string list \<Rightarrow> string \<Rightarrow> error + nat" where
  "get_pos dup cols c =
     (if 1 < count_list cols c then Inl dup
      else case col_pos cols c of None \<Rightarrow> Inl (KeyError c) | Some i \<Rightarrow> Inr i)"

definition bind_err :: "error + 'a \<Rightarrow> ('a \<Rightarrow> error + 'b) \<Rightarrow> error + 'b" where
  "bind_err r f = (case r of Inl e \<Rightarrow> Inl e | Inr x \<Rightarrow> f x)"

text \<open>A row shorter than the header is padded with missing values, as \<open>read_csv\<close> does.\<close>

definition cell_at :: "cell list \<Rightarrow> nat \<Rightarrow> cell" where
  "cell_at r i = (if i < length r then r ! i else NaN)"

definition column_cells :: "nat \<Rightarrow> cell list list \<Rightarrow> cell list" where
  "column_cells i rs = map (\<lambda>r. cell_at r i) rs"

definition is_text :: "cell \<Rightarrow> bool" where
  "is_text c = (case c of Str s \<Rightarrow> True | _ \<Rightarrow> False)"

definition is_int_cell :: "cell \<Rightarrow> bool" where
  "is_int_cell c = (case c of Num (IntV i) \<Rightarrow> True | _ \<Rightarrow> False)"

text \<open>
  The dtype of a column as \<open>read_csv\<close> leaves it, from all the cells of the column. A
  selection of rows keeps the dtype of the column it was taken from.
\<close>

definition dtype_of :: "cell list \<Rightarrow> dtype" where
  "dtype_of cs =
     (if cs = [] \<or> list_ex is_text cs then ObjectT
      else if list_all is_int_cell cs then Int64T else Float64T)"

definition load_data :: "dataframe \<Rightarrow> dataframe" where
  "load_data df = df\<lparr>columns := map normalize_col (columns df)\<rparr>"

subsection \<open>Signal classifier\<close>

text \<open>
  The \<open>.str\<close> accessor of a Series checks the Series before any method runs, and
  raises \<open>AttributeError\<close> unless the dtype is \<open>object\<close> and the values that are not
  missing are all text, or text mixed with numbers, or there are none. \<open>dt\<close> is the
  dtype of the column, \<open>cs\<close> are the cells of the selected rows.
\<close>

definition str_accessor :: "dtype \<Rightarrow> cell list \<Rightarrow> bool" where
  "str_accessor dt cs = (dt = ObjectT \<and> (list_ex is_text cs \<or> list_all (\<lambda>c. c = NaN) cs))"

text \<open>
  \<open>.str.contains(pat, case=False, na=False)\<close> for a pattern of letters only: a
  case-insensitive search; a missing or non-text cell gives \<open>False\<close>.
\<close>

definition str_contains_nocase :: "string \<Rightarrow> cell \<Rightarrow> bool" where
  "str_contains_nocase pat c =
     (case c of Str s \<Rightarrow> str_in (lower pat) (lower s) | _ \<Rightarrow> False)"

text \<open>\<open>.str.startswith(pat, na=False)\<close>: the cell's text begins with \<open>pat\<close>, as written.\<close>

definition str_startswith :: "string \<Rightarrow> cell \<Rightarrow> bool" where
  "str_startswith pat c = (case c of Str s \<Rightarrow> prefix pat s | _ \<Rightarrow> False)"

text \<open>
  Lines 68-73, on the positions of the person, type and mode columns. Each of the
  three selections goes through \<open>.str\<close>, on the rows the selection before it has kept.
\<close>

definition filtering :: "nat \<Rightarrow> nat \<Rightarrow> nat \<Rightarrow> cell list list \<Rightarrow> error + cell list list" where
  "filtering p t m rs =
     (if \<not> str_accessor (dtype_of (column_cells p rs)) (column_cells p rs)
      then Inl AttributeError
      else
       let promoter_df = filter (\<lambda>r. str_contains_nocase ''Promoter'' (cell_at r p)) rs
       in if \<not> str_accessor (dtype_of (column_cells t rs)) (column_cells t promoter_df)
          then Inl AttributeError
          else
           let buy_df = filter (\<lambda>r. str_contains_nocase ''Buy'' (cell_at r t) \<or>
                                    str_contains_nocase ''Acqui'' (cell_at r t)) promoter_df
           in if \<not> str_accessor (dtype_of (column_cells m rs)) (column_cells m buy_df)
              then Inl AttributeError
              else Inr (filter (\<lambda>r. str_startswith ''Market P'' (cell_at r m)) buy_df))"

subsection \<open>Aggregator\<close>

text \<open>
  \<open>pd.to_numeric(..., errors='coerce')\<close> on one value: a number stays, text becomes
  what the library's parser \<open>parse\<close> reads in it, and everything else becomes missing.
\<close>

definition to_numeric_cell :: "(string \<Rightarrow> num option) \<Rightarrow> cell \<Rightarrow> num option" where
  "to_numeric_cell parse c =
     (case c of Num n \<Rightarrow> Some n | Str s \<Rightarrow> parse s | NaN \<Rightarrow> None)"

definition is_int_value :: "num option \<Rightarrow> bool" where
  "is_int_value x = (case x of Some (IntV i) \<Rightarrow> True | _ \<Rightarrow> False)"

definition int_value :: "num option \<Rightarrow> int" where
  "int_value x = (case x of Some (IntV i) \<Rightarrow> i | _ \<Rightarrow> 0)"

text \<open>An integer becomes the float nearest to it.\<close>

definition as_double :: "num \<Rightarrow> rat" where
  "as_double n = (case n of IntV i \<Rightarrow> fl (of_int i) | FloatV x \<Rightarrow> x)"

datatype series = IntSeries "int list" | FloatSeries "rat option list"

text \<open>
  Line 76 on the value column of the kept rows. A numeric column keeps its dtype. The
  values of an \<open>object\<close> column are converted one by one, and the result is \<open>int64\<close>
  when every one of them is an integer, \<open>float64\<close> as soon as one is a float or
  missing.
\<close>

definition to_numeric :: "(string \<Rightarrow> num option) \<Rightarrow> dtype \<Rightarrow> cell list \<Rightarrow> series" where
  "to_numeric parse dt cs =
     (let vs = map (to_numeric_cell parse) cs
      in if dt \<noteq> Float64T \<and> list_all is_int_value vs then IntSeries (map int_value vs)
         else FloatSeries (map (map_option as_double) vs))"

definition sym_of :: "cell \<Rightarrow> string option" where
  "sym_of c = (case c of Str s \<Rightarrow> Some s | _ \<Rightarrow> None)"

text \<open>
  The float64 sum of a group is a compensated (Kahan) summation over the rows in their
  order: \<open>sumx\<close> is the running sum and \<open>compensation\<close> the rounding error carried to the
  next step. Missing values are skipped.
\<close>

fun kahan_step :: "rat \<times> rat \<Rightarrow> rat \<Rightarrow> rat \<times> rat" where
  "kahan_step (sumx, compensation) val =
     (let y = fl (val - compensation);
          t = fl (sumx + y)
      in (t, fl (fl (t - sumx) - y)))"

definition kahan_sum :: "rat list \<Rightarrow> rat" where
  "kahan_sum xs = fst (foldl kahan_step (0, 0) xs)"

record agg =
  idx :: nat
  symbol :: string
  total :: rat
  value_cr :: rat

text \<open>
  \<open>groupby('SYMBOL')\<close>: one group per distinct symbol, rows without a symbol dropped,
  groups in ascending order of the symbol.
\<close>

definition group_keys :: "nat \<Rightarrow> cell list list \<Rightarrow> string list" where
  "group_keys s rs = sort (remdups (List.map_filter (\<lambda>r. sym_of (cell_at r s)) rs))"

text \<open>
  The sum of the group \<open>k\<close>: over the values of the rows whose symbol is \<open>k\<close>, in int64
  with wrap-around for an \<open>int64\<close> column, compensated in float64 otherwise.
\<close>

definition group_sum :: "nat \<Rightarrow> cell list list \<Rightarrow> series \<Rightarrow> string \<Rightarrow> rat" where
  "group_sum s rs vals k =
     (let member = map (\<lambda>r. sym_of (cell_at r s) = Some k) rs
      in case vals of
           IntSeries ws \<Rightarrow> of_int (wrap64 (sum_list (map snd (filter fst (zip member ws)))))
         | FloatSeries xs \<Rightarrow> kahan_sum (List.map_filter snd (filter fst (zip member xs))))"

text \<open>
  Lines 77-78: the sums, \<open>reset_index\<close> (labels 0, 1, ... in group order) and the new
  column \<open>Value (Cr)\<close>: the sum as a float, divided by 10000000 and rounded.
\<close>

definition grouping :: "nat \<Rightarrow> cell list list \<Rightarrow> series \<Rightarrow> agg list" where
  "grouping s rs vals =
     map (\<lambda>(i, k). \<lparr>idx = i, symbol = k, total = group_sum s rs vals k,
                     value_cr = np_round2 (fl (group_sum s rs vals k) / 10000000)\<rparr>)
         (enumerate 0 (group_keys s rs))"

text \<open>
  Lines 76-78 on the kept rows: \<open>dt\<close> is the dtype of the value column in the table the
  rows were selected from.
\<close>

definition aggregate ::
  "(string \<Rightarrow> num option) \<Rightarrow> dtype \<Rightarrow> nat \<Rightarrow> nat \<Rightarrow> cell list list \<Rightarrow> agg list" where
  "aggregate parse dt s v final_df =
     grouping s final_df (to_numeric parse dt (column_cells v final_df))"

text \<open>
  Line 79, \<open>sort_values(by='Value (Cr)', ascending=False)\<close> with the default
  \<open>kind='quicksort'\<close>. pandas reverses the keys and their positions, asks \<open>argsort\<close>
  for an ascending order of the reversed keys, and reverses the answer. \<open>argsort\<close> is
  the library's: it returns positions of the list it is given.
\<close>

definition sort_values_desc :: "(rat list \<Rightarrow> nat list) \<Rightarrow> agg list \<Rightarrow> agg list" where
  "sort_values_desc argsort g =
     (let items = rev (map value_cr g);
          positions = rev [0..<length g];
          indexer = rev (map (\<lambda>j. positions ! j) (argsort items))
      in map (\<lambda>i. g ! i) indexer)"

text \<open>What \<open>argsort\<close> promises on a list of keys: a permutation of its positions along
  which the keys do not decrease.\<close>

definition argsort_ok :: "(rat list \<Rightarrow> nat list) \<Rightarrow> rat list \<Rightarrow> bool" where
  "argsort_ok argsort ks =
     (mset (argsort ks) = mset [0..<length ks] \<and> sorted (map (\<lambda>j. ks ! j) (argsort ks)))"

text \<open>
  Lines 46-79: from the parsed table to the ranked companies. The value column is not
  the SYMBOL column (its label has the keywords of the value role), so the symbols are
  read from the rows as the filter left them.
\<close>

definition rank_companies ::
  "(string \<Rightarrow> num option) \<Rightarrow> (rat list \<Rightarrow> nat list) \<Rightarrow> dataframe \<Rightarrow> error + agg list" where
  "rank_companies parse argsort df0 =
     (let df = load_data df0; cols = columns df in
      bind_err (column_mapping cols) (\<lambda>b.
      bind_err (get_pos AttributeError cols (person_col b)) (\<lambda>p.
      bind_err (get_pos AttributeError cols (type_col b)) (\<lambda>t.
      bind_err (get_pos AttributeError cols (mode_col b)) (\<lambda>m.
      bind_err (filtering p t m (rows df)) (\<lambda>final_df.
      bind_err (get_pos TypeError cols (val_col b)) (\<lambda>v.
      bind_err (get_pos ValueError cols ''SYMBOL'') (\<lambda>s.
        Inr (sort_values_desc argsort
               (aggregate parse (dtype_of (column_cells v (rows df))) s v final_df))))))))))"

subsection \<open>Fundamentals enricher\<close>

text \<open>
  The quote service either raises or returns a dictionary; a key of the dictionary may
  be absent, or present with the value \<open>None\<close>, or present with a number.
\<close>

datatype lookup_result = Raises | Info "string \<Rightarrow> rat option option"

text \<open>\<open>info.get(key, 0)\<close>: the default only replaces an absent key.\<close>

definition info_get :: "(string \<Rightarrow> rat option option) \<Rightarrow> string \<Rightarrow> rat option" where
  "info_get info k = (case info k of None \<Rightarrow> Some 0 | Some v \<Rightarrow> v)"

text \<open>\<open>if x is None: x = 0\<close>.\<close>

definition none_to_zero :: "rat option \<Rightarrow> rat" where
  "none_to_zero x = (case x of None \<Rightarrow> 0 | Some v \<Rightarrow> v)"

record scan_lists =
  pe_ratios :: "rat list"
  roes :: "rat list"
  debt_ratios :: "rat list"
  current_prices :: "rat option list"

text \<open>
  Lines 111-134, one turn of the loop: the three \<open>None\<close> checks cover the P/E, the
  return on equity and the debt ratio; the price is appended as it was read. The
  \<open>except\<close> branch appends four zeros.
\<close>

definition scan_step :: "(string \<Rightarrow> lookup_result) \<Rightarrow> scan_lists \<Rightarrow> string \<Rightarrow> scan_lists" where
  "scan_step lookup st sy =
     (case lookup (sy @ ''.NS'') of
        Info info \<Rightarrow>
          (let pe = none_to_zero (info_get info ''trailingPE'');
               roe = none_to_zero (info_get info ''returnOnEquity'');
               debt = none_to_zero (info_get info ''debtToEquity'');
               price = info_get info ''currentPrice''
           in \<lparr>pe_ratios = pe_ratios st @ [pe], roes = roes st @ [roe],
               debt_ratios = debt_ratios st @ [debt],
               current_prices = current_prices st @ [price]\<rparr>)
      | Raises \<Rightarrow>
          \<lparr>pe_ratios = pe_ratios st @ [0], roes = roes st @ [0],
           debt_ratios = debt_ratios st @ [0],
           current_prices = current_prices st @ [Some 0]\<rparr>)"

definition scanning_loop :: "(string \<Rightarrow> lookup_result) \<Rightarrow> string list \<Rightarrow> scan_lists" where
  "scanning_loop lookup syms =
     foldl (scan_step lookup)
       \<lparr>pe_ratios = [], roes = [], debt_ratios = [], current_prices = []\<rparr> syms"

record enriched = agg +
  price :: "rat option"
  pe :: rat
  roe_pct :: rat
  debt_eq :: rat

text \<open>
  Lines 141-144: the four lists become four new columns of \<open>top_picks\<close>, row by row.
  In \<open>round(r * 100, 2)\<close> the product is a float product: \<open>round2\<close> starts from the
  float nearest to the exact product.
\<close>

definition add_data :: "agg list \<Rightarrow> scan_lists \<Rightarrow> enriched list" where
  "add_data tp st =
     map (\<lambda>(a, pr, p, r, d).
            \<lparr>idx = idx a, symbol = symbol a, total = total a, value_cr = value_cr a,
             price = pr, pe = p, roe_pct = r, debt_eq = d\<rparr>)
       (zip tp (zip (current_prices st) (zip (pe_ratios st)
         (zip (map (\<lambda>r. round2 (r * 100)) (roes st)) (debt_ratios st)))))"

text \<open>Lines 102-144: \<open>head(num_stocks)\<close>, the loop over its symbols, the new columns.\<close>

definition deep_scan :: "(string \<Rightarrow> lookup_result) \<Rightarrow> nat \<Rightarrow> agg list \<Rightarrow> enriched list" where
  "deep_scan lookup num_stocks grouped_df =
     (let top_picks = take num_stocks grouped_df
      in add_data top_picks (scanning_loop lookup (map symbol top_picks)))"

subsection \<open>Quality gate\<close>

record thresholds =
  pe_limit :: rat
  roe_limit :: rat
  debt_limit :: rat

text \<open>
  Lines 147-152: the mask of the four comparisons. The comparisons are exact;
  \<open>debt_limit * 100\<close> is a float product.
\<close>

definition passes :: "thresholds \<Rightarrow> enriched \<Rightarrow> bool" where
  "passes th c =
     (0 < pe c \<and> pe c < pe_limit th \<and> roe_limit th < roe_pct c \<and>
      debt_eq c < fl (debt_limit th * 100))"

definition gold_stocks :: "thresholds \<Rightarrow> enriched list \<Rightarrow> enriched list" where
  "gold_stocks th top_picks = filter (passes th) top_picks"

text \<open>Line 160: the rows whose index label is not a label of \<open>gold_stocks\<close>.\<close>

definition rejected :: "thresholds \<Rightarrow> enriched list \<Rightarrow> enriched list" where
  "rejected th top_picks =
     filter (\<lambda>c. idx c \<notin> set (map idx (gold_stocks th top_picks))) top_picks"

text \<open>
  Lines 146-161 as a step on the variables of the scan: \<open>top_picks\<close> is read, and
  \<open>gold_stocks\<close> and \<open>rejected\<close> are bound anew.
\<close>

record scan_state =
  top_picks_df :: "enriched list"
  gold_df :: "enriched list"
  rejected_df :: "enriched list"

definition apply_slider_filters :: "thresholds \<Rightarrow> scan_state \<Rightarrow> scan_state" where
  "apply_slider_filters th s =
     s\<lparr>gold_df := gold_stocks th (top_picks_df s),
       rejected_df := rejected th (top_picks_df s)\<rparr>"

subsection \<open>The quality gate as the specification words it\<close>

text \<open>
  "debtToEquity < debtCeiling x 100", the product taken as the product of numbers.
  This predicate follows those words; it is compared with \<open>passes\<close>.
\<close>

definition spec_accepts :: "thresholds \<Rightarrow> enriched \<Rightarrow> bool" where
  "spec_accepts th c =
     (0 < pe c \<and> pe c < pe_limit th \<and> roe_limit th < roe_pct c \<and>
      debt_eq c < debt_limit th * 100)"

subsection \<open>The resolver as the specification words it\<close>

text \<open>
  "The first column whose lowercase name contains all of the role's keyword tokens":
  \<open>c\<close> stands at some position of \<open>cols\<close>, has the keywords, and no column before
  that position has them.
\<close>

definition is_first_match :: "string list \<Rightarrow> string list \<Rightarrow> string \<Rightarrow> bool" where
  "is_first_match keywords cols c =
     (\<exists>i<length cols. cols ! i = c \<and> has_keywords keywords c \<and>
        (\<forall>j<i. \<not> has_keywords keywords (cols ! j)))"

definition no_match :: "string list \<Rightarrow> string list \<Rightarrow> bool" where
  "no_match keywords cols = (\<not> (\<exists>c\<in>set cols. has_keywords keywords c))"

subsection \<open>The classifier as the specification words it\<close>

text \<open>
  The specification asks for a mode that starts with "Market P" whatever the case of
  its letters. This predicate follows those words; it is compared with \<open>filtering\<close>.
\<close>

definition spec_startswith_nocase :: "string \<Rightarrow> cell \<Rightarrow> bool" where
  "spec_startswith_nocase pat c =
     (case c of Str s \<Rightarrow> prefix (lower pat) (lower s) | _ \<Rightarrow> False)"

definition spec_signal :: "cell \<Rightarrow> cell \<Rightarrow> cell \<Rightarrow> bool" where
  "spec_signal actor ttype mode =
     (str_contains_nocase ''Promoter'' actor \<and>
      (str_contains_nocase ''Buy'' ttype \<or> str_contains_nocase ''Acqui'' ttype) \<and>
      spec_startswith_nocase ''Market P'' mode)"

text \<open>
  A column without numbers: every cell of it is text or missing. A text column of a
  table has no numbers, and some cell of it is text unless the table has no rows; such
  a column has the dtype \<open>object\<close>.
\<close>

definition text_cells :: "nat \<Rightarrow> cell list list \<Rightarrow> bool" where
  "text_cells i rs = list_all (\<lambda>r. is_text (cell_at r i) \<or> cell_at r i = NaN) rs"

definition text_column :: "nat \<Rightarrow> cell list list \<Rightarrow> bool" where
  "text_column i rs = (text_cells i rs \<and> (rs = [] \<or> list_ex (\<lambda>r. is_text (cell_at r i)) rs))"

text \<open>The row passes the three tests of lines 68-73.\<close>

definition keeps :: "nat \<Rightarrow> nat \<Rightarrow> nat \<Rightarrow> cell list \<Rightarrow> bool" where
  "keeps p t m r =
     (str_contains_nocase ''Promoter'' (cell_at r p) \<and>
      (str_contains_nocase ''Buy'' (cell_at r t) \<or> str_contains_nocase ''Acqui'' (cell_at r t)) \<and>
      str_startswith ''Market P'' (cell_at r m))"

subsection \<open>The aggregator as the specification words it\<close>








subsection \<open>The enricher, entry by entry\<close>

text \<open>
  What one turn of the scanning loop and the four column assignments give for a single
  company: the entry itself and the four fields read from its own lookup. The loop
  with its four lists is compared with this function.
\<close>

definition enrich_one :: "(string \<Rightarrow> lookup_result) \<Rightarrow> agg \<Rightarrow> enriched" where
  "enrich_one lookup a =
     (case lookup (symbol a @ ''.NS'') of
        Raises \<Rightarrow>
          \<lparr>idx = idx a, symbol = symbol a, total = total a, value_cr = value_cr a,
           price = Some 0, pe = 0, roe_pct = round2 (0 * 100), debt_eq = 0\<rparr>
      | Info info \<Rightarrow>
          \<lparr>idx = idx a, symbol = symbol a, total = total a, value_cr = value_cr a,
           price = info_get info ''currentPrice'',
           pe = none_to_zero (info_get info ''trailingPE''),
           roe_pct = round2 (none_to_zero (info_get info ''returnOnEquity'') * 100),
           debt_eq = none_to_zero (info_get info ''debtToEquity'')\<rparr>)"

text \<open>
  The specification's failure of a lookup: it raises, or the record it returns lacks one
  of the four fields; and its remedy: all four fields zero.
\<close>

definition lookup_failed :: "lookup_result \<Rightarrow> bool" where
  "lookup_failed r =
     (case r of Raises \<Rightarrow> True
      | Info info \<Rightarrow>
          info ''currentPrice'' = None \<or> info ''trailingPE'' = None \<or>
          info ''returnOnEquity'' = None \<or> info ''debtToEquity'' = None)"

definition all_zero :: "enriched \<Rightarrow> bool" where
  "all_zero e = (price e = Some 0 \<and> pe e = 0 \<and> roe_pct e = 0 \<and> debt_eq e = 0)"

subsection \<open>Example data\<close>

text \<open>The candidate and the two threshold settings of the spec's fourth scenario.\<close>

definition candidate4 :: enriched where
  "candidate4 =
     \<lparr>idx = 0, symbol = ''XYZ'', total = 30000000, value_cr = 3,
      price = Some 100, pe = 25, roe_pct = 15, debt_eq = 80\<rparr>"

definition sliders_default :: thresholds where
  "sliders_default = \<lparr>pe_limit = 60, roe_limit = 10, debt_limit = 2\<rparr>"

definition sliders_low_debt :: thresholds where
  "sliders_low_debt = \<lparr>pe_limit = 60, roe_limit = 10, debt_limit = 1 / 2\<rparr>"

text \<open>
  The debt slider at 0.1 and at 1.1: the program holds the float nearest to the
  decimal. A candidate with a debt ratio of 10 and one with 110.
\<close>

definition sliders_debt_01 :: thresholds where
  "sliders_debt_01 = \<lparr>pe_limit = 60, roe_limit = 10, debt_limit = fl (1 / 10)\<rparr>"

definition sliders_debt_11 :: thresholds where
  "sliders_debt_11 = \<lparr>pe_limit = 60, roe_limit = 10, debt_limit = fl (11 / 10)\<rparr>"

definition candidate_debt_10 :: enriched where
  "candidate_debt_10 =
     \<lparr>idx = 0, symbol = ''XYZ'', total = 30000000, value_cr = 3,
      price = Some 100, pe = 25, roe_pct = 15, debt_eq = 10\<rparr>"

definition candidate_debt_110 :: enriched where
  "candidate_debt_110 =
     \<lparr>idx = 0, symbol = ''XYZ'', total = 30000000, value_cr = 3,
      price = Some 100, pe = 25, roe_pct = 15, debt_eq = 110\<rparr>"

text \<open>Rows with the columns person, type, mode, value, symbol, in this order.\<close>

definition row_market :: "cell list" where
  "row_market =
     [Str ''Promoter Group'', Str ''Buy'', Str ''Market Purchase'', Str ''50000000'', Str ''ABC'']"

definition row_upper_mode :: "cell list" where
  "row_upper_mode =
     [Str ''Promoter Group'', Str ''Buy'', Str ''MARKET PURCHASE'', Str ''50000000'', Str ''ABC'']"

definition row_no_mode :: "cell list" where
  "row_no_mode = [Str ''Promoter Group'', Str ''Buy'', NaN, Str ''50000000'', Str ''ABC'']"

definition rows3 :: "cell list list" where
  "rows3 = [row_market, row_upper_mode, row_no_mode]"

text \<open>
  An example of a text-to-number parser: it reads unsigned decimal numerals, as
  integers, and nothing else. The theorems hold for every parser; the examples use this
  one.
\<close>

definition digit_val :: "char \<Rightarrow> int option" where
  "digit_val c =
     (let n = (of_char c :: int) in if 48 \<le> n \<and> n \<le> 57 then Some (n - 48) else None)"

fun digits_acc :: "int \<Rightarrow> string \<Rightarrow> int option" where
  "digits_acc n [] = Some n"
| "digits_acc n (c # cs) =
     (case digit_val c of None \<Rightarrow> None | Some d \<Rightarrow> digits_acc (10 * n + d) cs)"

definition parse_digits :: "string \<Rightarrow> num option" where
  "parse_digits s = (if s = [] then None else map_option IntV (digits_acc 0 s))"

text \<open>The two rows of the spec's third scenario, and a third whose value is no number.\<close>

definition row_xyz_1 :: "cell list" where
  "row_xyz_1 =
     [Str ''Promoter'', Str ''Buy'', Str ''Market Purchase'', Str ''10000000'', Str ''XYZ'']"

definition row_xyz_2 :: "cell list" where
  "row_xyz_2 =
     [Str ''Promoter'', Str ''Buy'', Str ''Market Purchase'', Str ''20000000'', Str ''XYZ'']"

definition row_xyz_bad :: "cell list" where
  "row_xyz_bad =
     [Str ''Promoter'', Str ''Buy'', Str ''Market Purchase'', Str ''n/a'', Str ''XYZ'']"






text \<open>The same rows and one of another company, in two different orders.\<close>

definition rows_mixed :: "cell list list" where
  "rows_mixed = [row_xyz_1, row_market, row_xyz_2, row_xyz_bad]"

definition rows_mixed_permuted :: "cell list list" where
  "rows_mixed_permuted = [row_xyz_bad, row_xyz_2, row_market, row_xyz_1]"






text \<open>
  A sorter that keeps the promise of \<open>argsort\<close>: an insertion sort on the keys paired
  with their positions.
\<close>

definition argsort_stable :: "rat list \<Rightarrow> nat list" where
  "argsort_stable ks = map snd (sort_key fst (zip ks [0..<length ks]))"

text \<open>A header as the exchange writes it, with a trailing blank and line break.\<close>

definition cols_nse :: "string list" where
  "cols_nse =
     [''CATEGORY OF PERSON \<newline>'', ''TRANSACTION TYPE \<newline>'',
      ''MODE OF ACQUISITION \<newline>'', ''VALUE OF SECURITY \<newline>'',
      ''SYMBOL \<newline>'']"

definition df_nse :: dataframe where
  "df_nse = \<lparr>columns = cols_nse, rows = rows_mixed\<rparr>"

definition df_no_mode :: dataframe where
  "df_no_mode = \<lparr>columns = cols_nse[2 := ''REMARKS''], rows = rows_mixed\<rparr>"

definition df_no_symbol :: dataframe where
  "df_no_symbol = \<lparr>columns = cols_nse[4 := ''COMPANY''], rows = rows_mixed\<rparr>"

text \<open>The same table without a SYMBOL column and with no mode in any row.\<close>

definition df_no_symbol_blank_mode :: dataframe where
  "df_no_symbol_blank_mode =
     \<lparr>columns = cols_nse[4 := ''COMPANY''], rows = map (\<lambda>r. r[2 := NaN]) rows_mixed\<rparr>"

definition binding_nse :: binding where
  "binding_nse =
     \<lparr>person_col = ''CATEGORY OF PERSON'',
      type_col = ''TRANSACTION TYPE'',
      val_col = ''VALUE OF SECURITY'',
      mode_col = ''MODE OF ACQUISITION''\<rparr>"

text \<open>A quote service: full data for ABC, an exception for BAD, no P/E for XYZ.\<close>

definition info_full :: "string \<Rightarrow> rat option option" where
  "info_full k =
     (if k = ''trailingPE'' then Some (Some 25)
      else if k = ''returnOnEquity'' then Some (Some (1 / 8))
      else if k = ''debtToEquity'' then Some (Some 80)
      else if k = ''currentPrice'' then Some (Some 100)
      else None)"

definition info_missing_pe :: "string \<Rightarrow> rat option option" where
  "info_missing_pe k = (if k = ''trailingPE'' then None else info_full k)"

definition lookup_example :: "string \<Rightarrow> lookup_result" where
  "lookup_example sy =
     (if sy = ''ABC.NS'' then Info info_full
      else if sy = ''XYZ.NS'' then Info info_missing_pe
      else Raises)"

definition ranked_example :: "agg list" where
  "ranked_example =
     [\<lparr>idx = 0, symbol = ''ABC'', total = 50000000, value_cr = 5\<rparr>,
      \<lparr>idx = 1, symbol = ''BAD'', total = 40000000, value_cr = 4\<rparr>,
      \<lparr>idx = 3, symbol = ''XYZ'', total = 30000000, value_cr = 3\<rparr>,
      \<lparr>idx = 2, symbol = ''LMN'', total = 10000000, value_cr = 1\<rparr>]"

text \<open>The state after the scan of the example, before any filter is applied.\<close>

definition scanned_example :: scan_state where
  "scanned_example =
     \<lparr>top_picks_df = deep_scan lookup_example 3 ranked_example, gold_df = [],
      rejected_df = []\<rparr>"

definition candidate_bad :: enriched where
  "candidate_bad =
     \<lparr>idx = 1, symbol = ''BAD'', total = 40000000, value_cr = 4,
      price = Some 0, pe = 0, roe_pct = 0, debt_eq = 0\<rparr>"

section \<open>Properties\<close>

subsection \<open>Schema resolver\<close>

lemma get_col_name_find: "get_col_name cols ks = find (has_keywords ks) cols"
  by (induction cols) auto

lemma get_col_name_Some_iff: "get_col_name cols ks = Some c \<longleftrightarrow> is_first_match ks cols c"
  unfolding get_col_name_find find_Some_iff is_first_match_def by auto

lemma get_col_name_None_iff: "get_col_name cols ks = None \<longleftrightarrow> no_match ks cols"
  unfolding get_col_name_find find_None_iff no_match_def by auto

lemma has_keywords_nonempty:
  "has_keywords ks c \<Longrightarrow> k \<in> set ks \<Longrightarrow> k \<noteq> [] \<Longrightarrow> c \<noteq> []"
  by (auto simp: has_keywords_def list_all_iff str_in_def lower_def)

lemma truthy_get_col_name:
  assumes "k \<in> set ks" "k \<noteq> []"
  shows "truthy (get_col_name cols ks) \<longleftrightarrow> get_col_name cols ks \<noteq> None"
proof (cases "get_col_name cols ks")
  case None then show ?thesis by (simp add: truthy_def)
next
  case (Some c)
  then have "has_keywords ks c" by (auto simp: get_col_name_Some_iff is_first_match_def)
  then have "c \<noteq> []" using assms by (rule has_keywords_nonempty)
  with Some show ?thesis by (simp add: truthy_def)
qed

lemma last_dropWhile_eq: "dropWhile P xs \<noteq> [] \<Longrightarrow> last (dropWhile P xs) = last xs"
  by (induction xs) (auto split: if_splits)

lemma strip_no_space_ends:
  "strip s = [] \<or> (\<not> is_space (hd (strip s)) \<and> \<not> is_space (last (strip s)))"
proof (cases "strip s = []")
  case True then show ?thesis by simp
next
  case False
  define t where "t = dropWhile is_space s"
  define u where "u = dropWhile is_space (rev t)"
  have s: "strip s = rev u" by (simp add: strip_def t_def u_def)
  with False have u: "u \<noteq> []" by simp
  then have t: "t \<noteq> []" by (auto simp: u_def)
  from u have "\<not> is_space (hd u)" unfolding u_def by (rule hd_dropWhile)
  then have l: "\<not> is_space (last (strip s))" using u by (simp add: s last_rev)
  from t have "\<not> is_space (hd t)" unfolding t_def by (rule hd_dropWhile)
  moreover have "last u = last (rev t)" using u unfolding u_def by (rule last_dropWhile_eq)
  ultimately have "\<not> is_space (hd (strip s))" using u t by (simp add: s hd_rev last_rev)
  with l show ?thesis by simp
qed

lemma normalize_col_props:
  "CHR 0x0A \<notin> set (normalize_col c) \<and>
   (normalize_col c = [] \<or>
    (\<not> is_space (hd (normalize_col c)) \<and> \<not> is_space (last (normalize_col c))))"
proof -
  have "set (strip s) \<subseteq> set s" for s
  proof
    fix x assume "x \<in> set (strip s)"
    then have "x \<in> set (dropWhile is_space (rev (dropWhile is_space s)))"
      by (simp add: strip_def)
    then have "x \<in> set (rev (dropWhile is_space s))" by (rule set_dropWhileD)
    then have "x \<in> set (dropWhile is_space s)" by simp
    then show "x \<in> set s" by (rule set_dropWhileD)
  qed
  then have "CHR 0x0A \<notin> set (normalize_col c)"
    unfolding normalize_col_def by fastforce
  then show ?thesis using strip_no_space_ends by (simp add: normalize_col_def)
qed


lemma truthy_get_col_name_Cons:
  "k \<noteq> [] \<Longrightarrow> truthy (get_col_name cols (k # ks)) \<longleftrightarrow> get_col_name cols (k # ks) \<noteq> None"
  by (rule truthy_get_col_name[of k]) simp_all

lemma truthy_None: "\<not> truthy None"
  by (simp add: truthy_def)

lemma column_mapping_eq:
  "column_mapping cols =
     (if get_col_name cols [''Category'', ''Person''] = None \<or>
         (get_col_name cols [''Transaction'', ''Type''] = None \<and>
          get_col_name cols [''Acquis'', ''Dispos''] = None) \<or>
         get_col_name cols [''Value'', ''Security''] = None \<or>
         get_col_name cols [''Mode'', ''Acquis''] = None
      then Inl SchemaMismatch
      else Inr \<lparr>person_col = the (get_col_name cols [''Category'', ''Person'']),
                type_col =
                  (if get_col_name cols [''Transaction'', ''Type''] = None
                   then the (get_col_name cols [''Acquis'', ''Dispos''])
                   else the (get_col_name cols [''Transaction'', ''Type''])),
                val_col = the (get_col_name cols [''Value'', ''Security'']),
                mode_col = the (get_col_name cols [''Mode'', ''Acquis''])\<rparr>)"
proof (cases "get_col_name cols [''Transaction'', ''Type'']")
  case None
  then show ?thesis
    unfolding column_mapping_def Let_def
    by (auto simp: truthy_get_col_name_Cons truthy_None)
next
  case (Some t)
  have "truthy (get_col_name cols [''Transaction'', ''Type''])"
    using Some truthy_get_col_name_Cons[of "''Transaction''" cols "[''Type'']"] by simp
  with Some show ?thesis
    unfolding column_mapping_def Let_def
    by (auto simp: truthy_get_col_name_Cons)
qed


lemma col_pos_None_iff: "col_pos cols c = None \<longleftrightarrow> c \<notin> set cols"
  by (induction cols) auto

lemma col_pos_Some_nth: "col_pos cols c = Some i \<Longrightarrow> i < length cols \<and> cols ! i = c"
  by (induction cols arbitrary: i) (auto split: if_splits)

lemma count_list_0_iff: "count_list xs x = 0 \<longleftrightarrow> x \<notin> set xs"
  by (induction xs) auto

lemma count_list_distinct: "distinct xs \<Longrightarrow> count_list xs x \<le> 1"
  by (induction xs) (auto simp: count_list_0_iff)

lemma get_pos_not_in_set: "c \<notin> set cols \<Longrightarrow> get_pos dup cols c = Inl (KeyError c)"
  using count_list_0_iff[of cols c]
  by (simp add: get_pos_def col_pos_None_iff[symmetric])

lemma get_pos_in_set:
  "c \<in> set cols \<Longrightarrow>
     get_pos dup cols c = Inl dup \<or> get_pos dup cols c = Inr (the (col_pos cols c))"
  by (cases "col_pos cols c") (auto simp: get_pos_def col_pos_None_iff)

lemma get_pos_distinct:
  "distinct cols \<Longrightarrow> c \<in> set cols \<Longrightarrow> get_pos dup cols c = Inr (the (col_pos cols c))"
  using count_list_distinct[of cols c]
  by (cases "col_pos cols c") (auto simp: get_pos_def col_pos_None_iff)

lemma get_col_name_in_set: "get_col_name cols ks = Some c \<Longrightarrow> c \<in> set cols"
  by (auto simp: get_col_name_Some_iff is_first_match_def)

lemma column_mapping_Inr_iff:
  "column_mapping cols = Inr b \<longleftrightarrow>
     get_col_name cols [''Category'', ''Person''] = Some (person_col b) \<and>
     (get_col_name cols [''Transaction'', ''Type''] = Some (type_col b) \<or>
      get_col_name cols [''Transaction'', ''Type''] = None \<and>
      get_col_name cols [''Acquis'', ''Dispos''] = Some (type_col b)) \<and>
     get_col_name cols [''Value'', ''Security''] = Some (val_col b) \<and>
     get_col_name cols [''Mode'', ''Acquis''] = Some (mode_col b)"
  unfolding column_mapping_eq by (cases b) auto

lemma column_mapping_in_set:
  assumes "column_mapping cols = Inr b"
  shows "person_col b \<in> set cols" "type_col b \<in> set cols"
        "val_col b \<in> set cols" "mode_col b \<in> set cols"
  using assms unfolding column_mapping_Inr_iff
  by (auto dest: get_col_name_in_set)

lemma column_mapping_Inl: "column_mapping cols = Inl e \<Longrightarrow> e = SchemaMismatch"
  unfolding column_mapping_eq by (auto split: if_splits)

lemma rank_companies_mismatch:
  "column_mapping (columns (load_data df)) = Inl e \<Longrightarrow> rank_companies parse argsort df = Inl e"
  by (simp add: rank_companies_def Let_def bind_err_def)

text \<open>
  C4. The column names the resolver sees are the normalized ones: no line break in
  them, no white space at either end. \<open>get_col_name\<close> returns the first column that
  has all the keywords, and \<open>None\<close> exactly when no column has them. A binding holds,
  for each role, the first column with that role's keywords (for the type role, the
  first with the fallback keywords when none has the primary ones). The result is
  \<open>SchemaMismatch\<close> exactly when some role has no column, any other result is a
  complete binding, and on \<open>SchemaMismatch\<close> the pipeline returns that error whatever
  the rows are.
\<close>

theorem schema_resolver_binding:
  "columns (load_data df) = map normalize_col (columns df) \<and>
   (\<forall>c\<in>set (columns (load_data df)).
      CHR 0x0A \<notin> set c \<and> (c = [] \<or> (\<not> is_space (hd c) \<and> \<not> is_space (last c)))) \<and>
   (get_col_name cols ks = Some c \<longleftrightarrow> is_first_match ks cols c) \<and>
   (get_col_name cols ks = None \<longleftrightarrow> no_match ks cols) \<and>
   (column_mapping cols = Inr b \<longrightarrow>
      is_first_match [''Category'', ''Person''] cols (person_col b) \<and>
      (is_first_match [''Transaction'', ''Type''] cols (type_col b) \<or>
       no_match [''Transaction'', ''Type''] cols \<and>
       is_first_match [''Acquis'', ''Dispos''] cols (type_col b)) \<and>
      is_first_match [''Value'', ''Security''] cols (val_col b) \<and>
      is_first_match [''Mode'', ''Acquis''] cols (mode_col b)) \<and>
   (column_mapping cols = Inl SchemaMismatch \<longleftrightarrow>
      no_match [''Category'', ''Person''] cols \<or>
      (no_match [''Transaction'', ''Type''] cols \<and> no_match [''Acquis'', ''Dispos''] cols) \<or>
      no_match [''Value'', ''Security''] cols \<or>
      no_match [''Mode'', ''Acquis''] cols) \<and>
   (column_mapping cols \<noteq> Inl SchemaMismatch \<longrightarrow> (\<exists>b'. column_mapping cols = Inr b')) \<and>
   (column_mapping (columns (load_data df)) = Inl SchemaMismatch \<longrightarrow>
      rank_companies parse argsort df = Inl SchemaMismatch)"
proof -
  have 1: "columns (load_data df) = map normalize_col (columns df)"
    by (simp add: load_data_def)
  have 2: "\<forall>c\<in>set (columns (load_data df)).
      CHR 0x0A \<notin> set c \<and> (c = [] \<or> (\<not> is_space (hd c) \<and> \<not> is_space (last c)))"
    unfolding 1 using normalize_col_props by auto
  have 5: "column_mapping cols = Inr b \<longrightarrow>
      is_first_match [''Category'', ''Person''] cols (person_col b) \<and>
      (is_first_match [''Transaction'', ''Type''] cols (type_col b) \<or>
       no_match [''Transaction'', ''Type''] cols \<and>
       is_first_match [''Acquis'', ''Dispos''] cols (type_col b)) \<and>
      is_first_match [''Value'', ''Security''] cols (val_col b) \<and>
      is_first_match [''Mode'', ''Acquis''] cols (mode_col b)"
    unfolding column_mapping_Inr_iff get_col_name_Some_iff get_col_name_None_iff by blast
  have 6: "column_mapping cols = Inl SchemaMismatch \<longleftrightarrow>
      no_match [''Category'', ''Person''] cols \<or>
      (no_match [''Transaction'', ''Type''] cols \<and> no_match [''Acquis'', ''Dispos''] cols) \<or>
      no_match [''Value'', ''Security''] cols \<or>
      no_match [''Mode'', ''Acquis''] cols"
    unfolding column_mapping_eq get_col_name_None_iff[symmetric] by simp
  have 7: "column_mapping cols \<noteq> Inl SchemaMismatch \<longrightarrow> (\<exists>b'. column_mapping cols = Inr b')"
    unfolding column_mapping_eq by simp
  have 8: "column_mapping (columns (load_data df)) = Inl SchemaMismatch \<longrightarrow>
      rank_companies parse argsort df = Inl SchemaMismatch"
    by (simp add: rank_companies_mismatch)
  from 1 2 get_col_name_Some_iff[of cols ks c] get_col_name_None_iff[of cols ks] 5 6 7 8
  show ?thesis by blast
qed

theorem schema_resolver_binding_witness:
  "column_mapping (columns (load_data df_nse)) = Inr binding_nse \<and>
   is_first_match [''Mode'', ''Acquis''] (columns (load_data df_nse)) ''MODE OF ACQUISITION'' \<and>
   column_mapping (columns (load_data df_no_mode)) = Inl SchemaMismatch \<and>
   rank_companies parse_digits argsort_stable df_no_mode = Inl SchemaMismatch"
proof -
  have a: "column_mapping (columns (load_data df_nse)) = Inr binding_nse"
    by code_simp
  have b: "column_mapping (columns (load_data df_no_mode)) = Inl SchemaMismatch"
    by code_simp
  have m: "mode_col binding_nse = ''MODE OF ACQUISITION''"
    by (simp add: binding_nse_def)
  from schema_resolver_binding[where cols = "columns (load_data df_nse)" and b = binding_nse] a
  have "is_first_match [''Mode'', ''Acquis''] (columns (load_data df_nse)) (mode_col binding_nse)"
    by blast
  then have "is_first_match [''Mode'', ''Acquis''] (columns (load_data df_nse)) ''MODE OF ACQUISITION''"
    by (simp only: m)
  moreover
  from schema_resolver_binding[where df = df_no_mode and parse = parse_digits
      and argsort = argsort_stable] b
  have "rank_companies parse_digits argsort_stable df_no_mode = Inl SchemaMismatch"
    by blast
  ultimately show ?thesis using a b by simp
qed

subsection \<open>Signal classifier\<close>

lemma str_contains_nocase_iff:
  "str_contains_nocase pat c \<longleftrightarrow> (\<exists>s. c = Str s \<and> str_in (lower pat) (lower s))"
  by (cases c) (simp_all add: str_contains_nocase_def)

lemma str_startswith_iff:
  "str_startswith pat c \<longleftrightarrow> (\<exists>s. c = Str s \<and> prefix pat s)"
  by (cases c) (simp_all add: str_startswith_def)

lemma filtering_Inl: "filtering p t m rs = Inl e \<Longrightarrow> e = AttributeError"
  by (auto simp: filtering_def Let_def split: if_splits)

lemma filtering_Inr:
  "filtering p t m rs = Inr out \<Longrightarrow> out = filter (keeps p t m) rs"
  by (auto simp: filtering_def Let_def keeps_def split: if_splits
      intro!: filter_cong)

lemma dtype_of_text_column: "text_column i rs \<Longrightarrow> dtype_of (column_cells i rs) = ObjectT"
  by (auto simp: text_column_def dtype_of_def column_cells_def list_ex_iff)

lemma str_accessor_text_column:
  assumes "text_column i rs" and "set sub \<subseteq> set rs"
  shows "str_accessor (dtype_of (column_cells i rs)) (column_cells i sub)"
proof -
  from assms have "\<forall>r\<in>set sub. is_text (cell_at r i) \<or> cell_at r i = NaN"
    by (auto simp: text_column_def text_cells_def list_all_iff)
  then have "list_ex is_text (column_cells i sub) \<or> list_all (\<lambda>c. c = NaN) (column_cells i sub)"
    by (auto simp: list_ex_iff list_all_iff column_cells_def)
  then show ?thesis
    by (simp add: str_accessor_def dtype_of_text_column[OF assms(1)])
qed

lemma filtering_text_columns:
  assumes "text_column p rs" and "text_column t rs" and "text_column m rs"
  shows "filtering p t m rs = Inr (filter (keeps p t m) rs)"
proof -
  have "\<exists>out. filtering p t m rs = Inr out"
    unfolding filtering_def Let_def
    by (simp add: str_accessor_text_column[OF assms(1)] str_accessor_text_column[OF assms(2)]
        str_accessor_text_column[OF assms(3)])
  then show ?thesis by (auto dest: filtering_Inr)
qed

lemma keeps_iff:
  "keeps p t m r \<longleftrightarrow>
     (\<exists>a. cell_at r p = Str a \<and> str_in (lower ''Promoter'') (lower a)) \<and>
     (\<exists>b. cell_at r t = Str b \<and>
          (str_in (lower ''Buy'') (lower b) \<or> str_in (lower ''Acqui'') (lower b))) \<and>
     (\<exists>c. cell_at r m = Str c \<and> prefix ''Market P'' c)"
  unfolding keeps_def str_contains_nocase_iff str_startswith_iff by blast

text \<open>
  C2, as the specification words it, fails twice. A promoter's purchase whose mode is
  written "MARKET PURCHASE" starts with "Market P" when case is ignored, and the
  classifier drops it. And in a table where the mode is missing in every row, the
  missing values are an error: the classifier raises \<open>AttributeError\<close>.
\<close>

theorem signal_classifier_case_counterexample:
  "spec_signal (cell_at row_upper_mode 0) (cell_at row_upper_mode 1) (cell_at row_upper_mode 2) \<and>
   filtering 0 1 2 [row_upper_mode] = Inr [] \<and>
   cell_at row_no_mode 2 = NaN \<and>
   filtering 0 1 2 [row_no_mode] = Inl AttributeError"
  by code_simp

text \<open>
  C2, amended. When the person, type and mode columns are text columns, the classifier
  raises nothing and its output is a subset of its input. A row is kept exactly when its
  person cell is text containing "Promoter" whatever the case, its type cell is text
  containing "Buy" or "Acqui" whatever the case, and its mode cell is text that starts
  with "Market P" as written, case included. A row with a missing value in one of the
  three cells is dropped. Whatever the columns are, the only error the classifier can
  raise is \<open>AttributeError\<close>, and when it raises nothing its output is as described.
\<close>

theorem signal_classifier_filter:
  assumes "text_column p rs" and "text_column t rs" and "text_column m rs"
  shows "(\<exists>out. filtering p t m rs = Inr out \<and>
            set out \<subseteq> set rs \<and>
            (r \<in> set out \<longleftrightarrow>
               r \<in> set rs \<and>
               (\<exists>a. cell_at r p = Str a \<and> str_in (lower ''Promoter'') (lower a)) \<and>
               (\<exists>b. cell_at r t = Str b \<and>
                    (str_in (lower ''Buy'') (lower b) \<or> str_in (lower ''Acqui'') (lower b))) \<and>
               (\<exists>c. cell_at r m = Str c \<and> prefix ''Market P'' c)) \<and>
            (cell_at r p = NaN \<or> cell_at r t = NaN \<or> cell_at r m = NaN \<longrightarrow> r \<notin> set out)) \<and>
         (\<forall>p' t' m' rs' e. filtering p' t' m' rs' = Inl e \<longrightarrow> e = AttributeError) \<and>
         (\<forall>p' t' m' rs' out. filtering p' t' m' rs' = Inr out \<longrightarrow>
            out = filter (keeps p' t' m') rs')"
proof -
  let ?out = "filter (keeps p t m) rs"
  have f: "filtering p t m rs = Inr ?out"
    using assms by (rule filtering_text_columns)
  have mem: "r \<in> set ?out \<longleftrightarrow>
      r \<in> set rs \<and>
      (\<exists>a. cell_at r p = Str a \<and> str_in (lower ''Promoter'') (lower a)) \<and>
      (\<exists>b. cell_at r t = Str b \<and>
           (str_in (lower ''Buy'') (lower b) \<or> str_in (lower ''Acqui'') (lower b))) \<and>
      (\<exists>c. cell_at r m = Str c \<and> prefix ''Market P'' c)"
    unfolding set_filter mem_Collect_eq keeps_iff by blast
  have na: "cell_at r p = NaN \<or> cell_at r t = NaN \<or> cell_at r m = NaN \<longrightarrow> r \<notin> set ?out"
    unfolding mem by auto
  have sub: "set ?out \<subseteq> set rs" by simp
  from f sub mem na have 1: "\<exists>out. filtering p t m rs = Inr out \<and>
            set out \<subseteq> set rs \<and>
            (r \<in> set out \<longleftrightarrow>
               r \<in> set rs \<and>
               (\<exists>a. cell_at r p = Str a \<and> str_in (lower ''Promoter'') (lower a)) \<and>
               (\<exists>b. cell_at r t = Str b \<and>
                    (str_in (lower ''Buy'') (lower b) \<or> str_in (lower ''Acqui'') (lower b))) \<and>
               (\<exists>c. cell_at r m = Str c \<and> prefix ''Market P'' c)) \<and>
            (cell_at r p = NaN \<or> cell_at r t = NaN \<or> cell_at r m = NaN \<longrightarrow> r \<notin> set out)"
    by blast
  from 1 filtering_Inl filtering_Inr show ?thesis by blast
qed

theorem signal_classifier_filter_witness:
  "text_column 0 rows3 \<and> text_column 1 rows3 \<and> text_column 2 rows3 \<and>
   filtering 0 1 2 rows3 = Inr [row_market] \<and> row_market \<in> set rows3 \<and>
   cell_at row_no_mode 2 = NaN \<and> row_no_mode \<in> set rows3 \<and>
   (\<exists>out. filtering 0 1 2 rows3 = Inr out \<and> set out \<subseteq> set rows3 \<and> row_no_mode \<notin> set out)"
proof -
  have c: "text_column 0 rows3" "text_column 1 rows3" "text_column 2 rows3"
    by code_simp+
  have e: "filtering 0 1 2 rows3 = Inr [row_market]" "cell_at row_no_mode 2 = NaN"
    by code_simp+
  have s: "row_market \<in> set rows3" "row_no_mode \<in> set rows3"
    by (simp_all add: rows3_def)
  from signal_classifier_filter[OF c, of row_no_mode] e(2)
  have "\<exists>out. filtering 0 1 2 rows3 = Inr out \<and> set out \<subseteq> set rows3 \<and> row_no_mode \<notin> set out"
    by blast
  with c e s show ?thesis by simp
qed

subsection \<open>The missing SYMBOL column\<close>

lemma symbol_lacks_value_keywords: "\<not> has_keywords [''Value'', ''Security''] ''SYMBOL''"
  by code_simp

lemma val_col_not_symbol:
  assumes "column_mapping cols = Inr b"
  shows "val_col b \<noteq> ''SYMBOL''"
proof
  assume "val_col b = ''SYMBOL''"
  with assms have "get_col_name cols [''Value'', ''Security''] = Some ''SYMBOL''"
    by (simp add: column_mapping_Inr_iff)
  then have "has_keywords [''Value'', ''Security''] ''SYMBOL''"
    by (auto simp: get_col_name_Some_iff is_first_match_def)
  with symbol_lacks_value_keywords show False by simp
qed

lemma rank_companies_no_symbol:
  assumes "column_mapping (columns (load_data df)) = Inr b"
    and "''SYMBOL'' \<notin> set (columns (load_data df))"
  shows "rank_companies parse argsort df = Inl AttributeError \<or>
         rank_companies parse argsort df = Inl TypeError \<or>
         rank_companies parse argsort df = Inl (KeyError ''SYMBOL'')"
proof -
  let ?cols = "columns (load_data df)"
  note in_set = column_mapping_in_set[OF assms(1)]
  have s: "get_pos ValueError ?cols ''SYMBOL'' = Inl (KeyError ''SYMBOL'')"
    using assms(2) by (rule get_pos_not_in_set)
  show ?thesis
    using get_pos_in_set[OF in_set(1), of AttributeError]
      get_pos_in_set[OF in_set(2), of AttributeError]
      get_pos_in_set[OF in_set(4), of AttributeError]
      get_pos_in_set[OF in_set(3), of TypeError]
    by (auto simp: rank_companies_def Let_def bind_err_def assms(1) s
        split: sum.splits dest: filtering_Inl)
qed

lemma rank_companies_no_symbol_text:
  assumes "column_mapping (columns (load_data df)) = Inr b"
    and "''SYMBOL'' \<notin> set (columns (load_data df))"
    and "distinct (columns (load_data df))"
    and "text_column (the (col_pos (columns (load_data df)) (person_col b))) (rows df)"
    and "text_column (the (col_pos (columns (load_data df)) (type_col b))) (rows df)"
    and "text_column (the (col_pos (columns (load_data df)) (mode_col b))) (rows df)"
  shows "rank_companies parse argsort df = Inl (KeyError ''SYMBOL'')"
proof -
  let ?cols = "columns (load_data df)"
  note in_set = column_mapping_in_set[OF assms(1)]
  have s: "get_pos ValueError ?cols ''SYMBOL'' = Inl (KeyError ''SYMBOL'')"
    using assms(2) by (rule get_pos_not_in_set)
  have r: "rows (load_data df) = rows df" by (simp add: load_data_def)
  show ?thesis
    by (simp add: rank_companies_def Let_def bind_err_def assms(1) s r
        get_pos_distinct[OF assms(3) in_set(1)] get_pos_distinct[OF assms(3) in_set(2)]
        get_pos_distinct[OF assms(3) in_set(3)] get_pos_distinct[OF assms(3) in_set(4)]
        filtering_text_columns[OF assms(4) assms(5) assms(6)])
qed

lemma column_mapping_no_symbol:
  "column_mapping (columns (load_data df_no_symbol)) = Inr binding_nse"
  by code_simp

lemma columns_no_symbol:
  "''SYMBOL'' \<notin> set (columns (load_data df_no_symbol))"
  "distinct (columns (load_data df_no_symbol))"
  "columns (load_data df_no_symbol_blank_mode) = columns (load_data df_no_symbol)"
  by code_simp+

lemma positions_no_symbol:
  "the (col_pos (columns (load_data df_no_symbol)) (person_col binding_nse)) = 0"
  "the (col_pos (columns (load_data df_no_symbol)) (type_col binding_nse)) = 1"
  "the (col_pos (columns (load_data df_no_symbol)) (mode_col binding_nse)) = 2"
  "the (col_pos (columns (load_data df_no_symbol)) (val_col binding_nse)) = 3"
  by code_simp+

text \<open>
  C5, as the specification words it, fails: in a table with the four roles bound, no
  SYMBOL column and no mode in any row, the pipeline never reaches the grouping step. It
  raises \<open>AttributeError\<close> in the classifier, not the \<open>KeyError\<close> of \<open>groupby\<close>.
\<close>

theorem missing_symbol_blank_mode_counterexample:
  "column_mapping (columns (load_data df_no_symbol_blank_mode)) = Inr binding_nse \<and>
   ''SYMBOL'' \<notin> set (columns (load_data df_no_symbol_blank_mode)) \<and>
   rank_companies parse_digits argsort_stable df_no_symbol_blank_mode = Inl AttributeError \<and>
   rank_companies parse_digits argsort_stable df_no_symbol_blank_mode \<noteq>
     Inl (KeyError ''SYMBOL'')"
proof -
  have f: "filtering 0 1 2 (rows df_no_symbol_blank_mode) = Inl AttributeError"
    by code_simp
  have r: "rows (load_data df_no_symbol_blank_mode) = rows df_no_symbol_blank_mode"
    by (simp add: load_data_def)
  have g: "get_pos AttributeError (columns (load_data df_no_symbol)) (person_col binding_nse) = Inr 0"
    "get_pos AttributeError (columns (load_data df_no_symbol)) (type_col binding_nse) = Inr 1"
    "get_pos AttributeError (columns (load_data df_no_symbol)) (mode_col binding_nse) = Inr 2"
    using get_pos_distinct[OF columns_no_symbol(2)]
      column_mapping_in_set[OF column_mapping_no_symbol]
    by (simp_all add: positions_no_symbol)
  have "rank_companies parse_digits argsort_stable df_no_symbol_blank_mode = Inl AttributeError"
    unfolding rank_companies_def Let_def bind_err_def columns_no_symbol(3)
      column_mapping_no_symbol g r f sum.case
    by (rule refl)
  then show ?thesis
    using columns_no_symbol(1) by (simp add: columns_no_symbol(3) column_mapping_no_symbol)
qed

text \<open>
  C5, amended. When all four roles are bound and no normalized column is named SYMBOL,
  the pipeline ends in an unhandled error, never in \<open>SchemaMismatch\<close> and never in a
  result: the \<open>AttributeError\<close> of the classifier, the \<open>TypeError\<close> of \<open>to_numeric\<close>
  on a value label that two columns carry, or the \<open>KeyError\<close> of the grouping step. It
  is the \<open>KeyError\<close> of the grouping step whenever the labels are distinct and the
  person, type and mode columns are text columns.
\<close>

theorem missing_symbol_key_error:
  assumes "column_mapping (columns (load_data df)) = Inr b"
    and "''SYMBOL'' \<notin> set (columns (load_data df))"
  shows "(rank_companies parse argsort df = Inl AttributeError \<or>
          rank_companies parse argsort df = Inl TypeError \<or>
          rank_companies parse argsort df = Inl (KeyError ''SYMBOL'')) \<and>
         rank_companies parse argsort df \<noteq> Inl SchemaMismatch \<and>
         (\<forall>out. rank_companies parse argsort df \<noteq> Inr out) \<and>
         (distinct (columns (load_data df)) \<and>
          text_column (the (col_pos (columns (load_data df)) (person_col b))) (rows df) \<and>
          text_column (the (col_pos (columns (load_data df)) (type_col b))) (rows df) \<and>
          text_column (the (col_pos (columns (load_data df)) (mode_col b))) (rows df) \<longrightarrow>
          rank_companies parse argsort df = Inl (KeyError ''SYMBOL''))"
  using rank_companies_no_symbol[OF assms, of parse argsort]
    rank_companies_no_symbol_text[OF assms, of parse argsort]
  by auto

theorem missing_symbol_key_error_witness:
  "column_mapping (columns (load_data df_no_symbol)) = Inr binding_nse \<and>
   ''SYMBOL'' \<notin> set (columns (load_data df_no_symbol)) \<and>
   distinct (columns (load_data df_no_symbol)) \<and>
   text_column 0 (rows df_no_symbol) \<and> text_column 1 (rows df_no_symbol) \<and>
   text_column 2 (rows df_no_symbol) \<and>
   rank_companies parse_digits argsort_stable df_no_symbol = Inl (KeyError ''SYMBOL'')"
proof -
  have t: "text_column 0 (rows df_no_symbol)" "text_column 1 (rows df_no_symbol)"
    "text_column 2 (rows df_no_symbol)"
    by code_simp+
  from missing_symbol_key_error[OF column_mapping_no_symbol columns_no_symbol(1),
      of parse_digits argsort_stable]
    columns_no_symbol(2) t
  have "rank_companies parse_digits argsort_stable df_no_symbol = Inl (KeyError ''SYMBOL'')"
    by (simp add: positions_no_symbol)
  with column_mapping_no_symbol columns_no_symbol(1,2) t show ?thesis by simp
qed

subsection \<open>Aggregator\<close>








































subsection \<open>Ranking\<close>

lemma mset_map_nth_perm:
  assumes "mset perm = mset [0..<length xs]"
  shows "mset (map (\<lambda>i. xs ! i) perm) = mset xs"
proof -
  have "mset (map (\<lambda>i. xs ! i) perm) = image_mset (\<lambda>i. xs ! i) (mset perm)" by simp
  also have "\<dots> = mset (map (\<lambda>i. xs ! i) [0..<length xs])" by (simp add: assms)
  also have "\<dots> = mset xs" by (simp add: map_nth)
  finally show ?thesis .
qed

lemma sort_values_desc_keys:
  assumes "mset (argsort (rev (map value_cr g))) = mset [0..<length g]"
  shows "map value_cr (sort_values_desc argsort g) =
         rev (map (\<lambda>j. rev (map value_cr g) ! j) (argsort (rev (map value_cr g))))"
proof -
  have in_range: "j < length g" if "j \<in> set (argsort (rev (map value_cr g)))" for j
  proof -
    from that have "j \<in># mset (argsort (rev (map value_cr g)))" by simp
    then have "j \<in> set [0..<length g]" unfolding assms by simp
    then show ?thesis by simp
  qed
  have "value_cr (g ! (rev [0..<length g] ! j)) = rev (map value_cr g) ! j"
    if "j \<in> set (argsort (rev (map value_cr g)))" for j
    using in_range[OF that] by (simp add: rev_nth)
  then show ?thesis
    by (simp add: sort_values_desc_def Let_def rev_map comp_def cong: map_cong)
qed

text \<open>
  Whatever permutation \<open>argsort\<close> returns, as long as it is a permutation of the
  positions along which the keys do not decrease, the ranked list is in descending order
  of the normalized value and holds exactly the grouped entries.
\<close>

lemma sort_values_desc_sorted_perm:
  assumes "argsort_ok argsort (rev (map value_cr g))"
  shows "sorted_wrt (\<lambda>a b. value_cr b \<le> value_cr a) (sort_values_desc argsort g)"
    and "mset (sort_values_desc argsort g) = mset g"
proof -
  from assms have p: "mset (argsort (rev (map value_cr g))) = mset [0..<length g]"
    and s: "sorted (map (\<lambda>j. rev (map value_cr g) ! j) (argsort (rev (map value_cr g))))"
    by (simp_all add: argsort_ok_def)
  have "sorted_wrt (\<lambda>x y. y \<le> x) (map value_cr (sort_values_desc argsort g))"
    unfolding sort_values_desc_keys[of argsort g, OF p] sorted_wrt_rev using s by simp
  then show "sorted_wrt (\<lambda>a b. value_cr b \<le> value_cr a) (sort_values_desc argsort g)"
    by (simp add: sorted_wrt_map)
  have "mset (map (\<lambda>j. rev [0..<length g] ! j) (argsort (rev (map value_cr g)))) =
        mset (rev [0..<length g])"
    by (rule mset_map_nth_perm) (simp add: p)
  then have "mset (rev (map (\<lambda>j. rev [0..<length g] ! j) (argsort (rev (map value_cr g))))) =
        mset [0..<length g]"
    by simp
  then show "mset (sort_values_desc argsort g) = mset g"
    unfolding sort_values_desc_def Let_def by (rule mset_map_nth_perm)
qed

subsection \<open>Fundamentals enricher\<close>

lemma scan_foldl:
  "foldl (scan_step lookup) st syms =
     \<lparr>pe_ratios = pe_ratios st @
        map (\<lambda>sy. case lookup (sy @ ''.NS'') of Raises \<Rightarrow> 0
                   | Info info \<Rightarrow> none_to_zero (info_get info ''trailingPE'')) syms,
      roes = roes st @
        map (\<lambda>sy. case lookup (sy @ ''.NS'') of Raises \<Rightarrow> 0
                   | Info info \<Rightarrow> none_to_zero (info_get info ''returnOnEquity'')) syms,
      debt_ratios = debt_ratios st @
        map (\<lambda>sy. case lookup (sy @ ''.NS'') of Raises \<Rightarrow> 0
                   | Info info \<Rightarrow> none_to_zero (info_get info ''debtToEquity'')) syms,
      current_prices = current_prices st @
        map (\<lambda>sy. case lookup (sy @ ''.NS'') of Raises \<Rightarrow> Some 0
                   | Info info \<Rightarrow> info_get info ''currentPrice'') syms\<rparr>"
proof (induction syms arbitrary: st)
  case Nil
  then show ?case by simp
next
  case (Cons sy syms)
  show ?case
    unfolding foldl_Cons Cons.IH
    by (cases "lookup (sy @ ''.NS'')") (simp_all add: scan_step_def Let_def)
qed

lemma add_data_map:
  "add_data tp
     \<lparr>pe_ratios = map h1 tp, roes = map h2 tp,
      debt_ratios = map h3 tp, current_prices = map h4 tp\<rparr> =
   map (\<lambda>a. \<lparr>idx = idx a, symbol = symbol a, total = total a, value_cr = value_cr a,
              price = h4 a, pe = h1 a, roe_pct = round2 (h2 a * 100), debt_eq = h3 a\<rparr>) tp"
  unfolding add_data_def
  by (induction tp) simp_all

lemma deep_scan_map: "deep_scan lookup n g = map (enrich_one lookup) (take n g)"
proof -
  have "deep_scan lookup n g =
    map (\<lambda>a. \<lparr>idx = idx a, symbol = symbol a, total = total a, value_cr = value_cr a,
              price = (case lookup (symbol a @ ''.NS'') of Raises \<Rightarrow> Some 0
                   | Info info \<Rightarrow> info_get info ''currentPrice''),
              pe = (case lookup (symbol a @ ''.NS'') of Raises \<Rightarrow> 0
                   | Info info \<Rightarrow> none_to_zero (info_get info ''trailingPE'')),
              roe_pct = round2 ((case lookup (symbol a @ ''.NS'') of Raises \<Rightarrow> 0
                   | Info info \<Rightarrow> none_to_zero (info_get info ''returnOnEquity'')) * 100),
              debt_eq = (case lookup (symbol a @ ''.NS'') of Raises \<Rightarrow> 0
                   | Info info \<Rightarrow> none_to_zero (info_get info ''debtToEquity''))\<rparr>) (take n g)"
    unfolding deep_scan_def Let_def scanning_loop_def scan_foldl
    by (simp add: add_data_map)
  also have "\<dots> = map (enrich_one lookup) (take n g)"
    by (rule map_cong) (auto simp: enrich_one_def split: lookup_result.splits)
  finally show ?thesis .
qed


lemma round2_0: "round2 0 = 0"
  by (simp add: round2_def fl_def round_half_even_def)

text \<open>
  C6. The enricher returns min(N, length of the ranked list) entries; stripped of the four
  new fields they are the first N entries of the ranked list, in the same order; the
  entry at each position is the enrichment of the ranked entry at that position; and the
  entries beyond the first N play no part in the result.
\<close>

theorem enricher_top_n:
  "length (deep_scan lookup n g) = min n (length g) \<and>
   map agg.truncate (deep_scan lookup n g) = take n g \<and>
   (\<forall>i<length (deep_scan lookup n g). deep_scan lookup n g ! i = enrich_one lookup (g ! i)) \<and>
   deep_scan lookup n g = deep_scan lookup n (take n g)"
proof -
  have t: "agg.truncate \<circ> enrich_one lookup = id"
    by (auto simp: fun_eq_iff enrich_one_def agg.defs
        split: lookup_result.splits)
  have "map agg.truncate (deep_scan lookup n g) = take n g"
    by (simp add: deep_scan_map t)
  then show ?thesis by (simp add: deep_scan_map)
qed


lemma deep_scan_example:
  "deep_scan lookup_example 3 ranked_example =
     [\<lparr>idx = 0, symbol = ''ABC'', total = 50000000, value_cr = 5,
       price = Some 100, pe = 25, roe_pct = 25 / 2, debt_eq = 80\<rparr>,
      \<lparr>idx = 1, symbol = ''BAD'', total = 40000000, value_cr = 4,
       price = Some 0, pe = 0, roe_pct = 0, debt_eq = 0\<rparr>,
      \<lparr>idx = 3, symbol = ''XYZ'', total = 30000000, value_cr = 3,
       price = Some 100, pe = 0, roe_pct = 25 / 2, debt_eq = 80\<rparr>]"
proof -
  have r: "round2 (25 / 2) = 25 / 2" "round2 0 = 0"
    by code_simp+
  show ?thesis
    unfolding deep_scan_map
    by (simp add: ranked_example_def enrich_one_def lookup_example_def info_full_def
        info_missing_pe_def info_get_def none_to_zero_def r)
qed

theorem enricher_top_n_witness:
  "length (deep_scan lookup_example 3 ranked_example) = min 3 (length ranked_example) \<and>
   map symbol (deep_scan lookup_example 3 ranked_example) = [''ABC'', ''BAD'', ''XYZ''] \<and>
   map agg.truncate (deep_scan lookup_example 3 ranked_example) = take 3 ranked_example \<and>
   deep_scan lookup_example 3 ranked_example ! 2 = enrich_one lookup_example (ranked_example ! 2)"
proof -
  have l: "(2::nat) < length (deep_scan lookup_example 3 ranked_example)"
    by (simp add: deep_scan_example)
  have s: "map symbol (deep_scan lookup_example 3 ranked_example) = [''ABC'', ''BAD'', ''XYZ'']"
    by (simp add: deep_scan_example)
  from enricher_top_n[of lookup_example 3 ranked_example] l s show ?thesis by blast
qed

text \<open>
  C7, as the specification words it, fails: the record returned for XYZ lacks the P/E,
  which the specification counts as a failed lookup, and the candidate is not zeroed:
  it keeps the price, the return on equity and the debt ratio of the record.
\<close>

theorem enricher_missing_field_counterexample:
  "lookup_failed (lookup_example (symbol (ranked_example ! 2) @ ''.NS'')) \<and>
   \<not> all_zero (deep_scan lookup_example 3 ranked_example ! 2)"
  by (simp add: deep_scan_example all_zero_def)
     (simp add: ranked_example_def lookup_example_def lookup_failed_def info_missing_pe_def)

text \<open>
  C7, amended. For a candidate among the first N: when its lookup raises, all four
  fields are zero; when its lookup returns a record, the P/E, the return on equity and
  the debt ratio are each the record's number, or zero when the record lacks that field
  or holds \<open>None\<close> for it, and the price is the record's number, or zero when the record
  lacks it; the candidate's entry depends on no lookup but its own, so a failure for one
  candidate changes no other entry; and the loop always runs to the end.
\<close>

theorem enricher_isolated_defaults:
  assumes "i < n" and "i < length g"
  shows
   "(lookup (symbol (g ! i) @ ''.NS'') = Raises \<longrightarrow> all_zero (deep_scan lookup n g ! i)) \<and>
    (\<forall>info. lookup (symbol (g ! i) @ ''.NS'') = Info info \<longrightarrow>
       pe (deep_scan lookup n g ! i) =
         (case info ''trailingPE'' of Some (Some x) \<Rightarrow> x | _ \<Rightarrow> 0) \<and>
       roe_pct (deep_scan lookup n g ! i) =
         round2 ((case info ''returnOnEquity'' of Some (Some x) \<Rightarrow> x | _ \<Rightarrow> 0) * 100) \<and>
       debt_eq (deep_scan lookup n g ! i) =
         (case info ''debtToEquity'' of Some (Some x) \<Rightarrow> x | _ \<Rightarrow> 0) \<and>
       (info ''currentPrice'' = None \<longrightarrow> price (deep_scan lookup n g ! i) = Some 0) \<and>
       (\<forall>x. info ''currentPrice'' = Some (Some x) \<longrightarrow>
            price (deep_scan lookup n g ! i) = Some x)) \<and>
    (\<forall>lookup'. lookup' (symbol (g ! i) @ ''.NS'') = lookup (symbol (g ! i) @ ''.NS'') \<longrightarrow>
       deep_scan lookup' n g ! i = deep_scan lookup n g ! i) \<and>
    length (deep_scan lookup n g) = min n (length g)"
proof -
  have e: "deep_scan lookup' n g ! i = enrich_one lookup' (g ! i)" for lookup'
    using assms by (simp add: deep_scan_map)
  show ?thesis
    unfolding e
    by (auto simp: enrich_one_def all_zero_def round2_0 info_get_def none_to_zero_def
        deep_scan_map split: option.splits)
qed

theorem enricher_isolated_defaults_witness:
  "(1::nat) < 3 \<and> 1 < length ranked_example \<and>
   lookup_example (symbol (ranked_example ! 1) @ ''.NS'') = Raises \<and>
   all_zero (deep_scan lookup_example 3 ranked_example ! 1) \<and>
   \<not> all_zero (deep_scan lookup_example 3 ranked_example ! 0) \<and>
   pe (deep_scan lookup_example 3 ranked_example ! 2) = 0 \<and>
   debt_eq (deep_scan lookup_example 3 ranked_example ! 2) = 80"
proof -
  have a: "(1::nat) < 3" "1 < length ranked_example"
    by (simp_all add: ranked_example_def)
  have r: "lookup_example (symbol (ranked_example ! 1) @ ''.NS'') = Raises"
    by (simp add: ranked_example_def lookup_example_def)
  from enricher_isolated_defaults[OF a, of lookup_example] r
  have "all_zero (deep_scan lookup_example 3 ranked_example ! 1)" by blast
  then show ?thesis using a r by (simp add: deep_scan_example all_zero_def)
qed

subsection \<open>Quality gate\<close>

lemma idx_image_filter_iff:
  assumes "distinct (map idx tp)" and "c \<in> set tp"
  shows "idx c \<in> idx ` set (filter P tp) \<longleftrightarrow> P c"
proof
  assume "idx c \<in> idx ` set (filter P tp)"
  then obtain d where d: "d \<in> set tp" "P d" "idx d = idx c" by auto
  from assms(1) have "inj_on idx (set tp)" by (simp add: distinct_map)
  with d assms(2) have "d = c" by (auto dest: inj_onD)
  with d show "P c" by simp
next
  assume "P c"
  with assms(2) show "idx c \<in> idx ` set (filter P tp)" by auto
qed

lemma in_gold_iff: "c \<in> set (gold_stocks th tp) \<longleftrightarrow> c \<in> set tp \<and> passes th c"
  by (simp add: gold_stocks_def)

lemma in_rejected_iff:
  assumes "distinct (map idx tp)"
  shows "c \<in> set (rejected th tp) \<longleftrightarrow> c \<in> set tp \<and> \<not> passes th c"
  using idx_image_filter_iff[OF assms, of c "passes th"]
  by (auto simp: rejected_def gold_stocks_def)

text \<open>
  C1, as the specification words it, fails, because the code compares the debt ratio
  with a float product. With the debt slider at 0.1 the program holds the float nearest
  to 0.1, which lies above 0.1; 100 times that number lies above 10, so a candidate with
  the debt ratio 10 meets the four conditions as worded, but the float product is
  exactly 10 and the gate rejects the candidate. With the slider at 1.1 the float product
  is 110.00000000000001, and the gate accepts a candidate with the debt ratio 110, which
  is not below 1.1 times 100.
\<close>

theorem quality_gate_float_product_counterexample:
  "spec_accepts sliders_debt_01 candidate_debt_10 \<and>
   candidate_debt_10 \<notin> set (gold_stocks sliders_debt_01 [candidate_debt_10]) \<and>
   candidate_debt_110 \<in> set (gold_stocks sliders_debt_11 [candidate_debt_110]) \<and>
   \<not> debt_eq candidate_debt_110 < 11 / 10 * 100 \<and>
   fl (debt_limit sliders_debt_01 * 100) = 10 \<and>
   fl (debt_limit sliders_debt_11 * 100) = 7740561859543041 / 70368744177664"
  by code_simp

text \<open>
  C1, amended. Among candidates with distinct index labels (the labels \<open>reset_index\<close>
  gives), a candidate is in \<open>gold_stocks\<close> exactly when its P/E is positive and below
  the ceiling, its ROE percent is above the floor and its debt/equity is below the float64
  product of the debt ceiling and 100, that is, the float nearest to the product; it is
  in \<open>rejected\<close> exactly when that fails, in particular when its P/E is zero.
\<close>

theorem quality_gate_accepts_iff:
  assumes "distinct (map idx top_picks)" and "c \<in> set top_picks"
  shows "(c \<in> set (gold_stocks th top_picks) \<longleftrightarrow>
            0 < pe c \<and> pe c < pe_limit th \<and> roe_limit th < roe_pct c \<and>
            debt_eq c < fl (debt_limit th * 100))
       \<and> (c \<in> set (rejected th top_picks) \<longleftrightarrow>
            \<not> (0 < pe c \<and> pe c < pe_limit th \<and> roe_limit th < roe_pct c \<and>
               debt_eq c < fl (debt_limit th * 100)))
       \<and> (pe c = 0 \<longrightarrow> c \<in> set (rejected th top_picks))"
  using assms in_gold_iff[of c th top_picks] in_rejected_iff[OF assms(1), of c th]
  by (auto simp: passes_def)

theorem quality_gate_accepts_iff_witness:
  "distinct (map idx [candidate4]) \<and> candidate4 \<in> set [candidate4] \<and>
   candidate4 \<in> set (gold_stocks sliders_default [candidate4]) \<and>
   candidate4 \<notin> set (rejected sliders_default [candidate4]) \<and>
   candidate4 \<in> set (rejected sliders_low_debt [candidate4]) \<and>
   candidate4 \<notin> set (gold_stocks sliders_low_debt [candidate4]) \<and>
   candidate_debt_10 \<in> set (rejected sliders_debt_01 [candidate_debt_10]) \<and>
   candidate_debt_110 \<in> set (gold_stocks sliders_debt_11 [candidate_debt_110])"
proof -
  have f: "fl (debt_limit sliders_default * 100) = 200"
    "fl (debt_limit sliders_low_debt * 100) = 50"
    "fl (debt_limit sliders_debt_01 * 100) = 10"
    "fl (debt_limit sliders_debt_11 * 100) = 7740561859543041 / 70368744177664"
    by code_simp+
  have "candidate4 \<in> set (gold_stocks sliders_default [candidate4]) \<and>
        candidate4 \<notin> set (rejected sliders_default [candidate4])"
    using quality_gate_accepts_iff[of "[candidate4]" candidate4 sliders_default] f(1)
    by (simp add: candidate4_def sliders_default_def)
  moreover have "candidate4 \<in> set (rejected sliders_low_debt [candidate4]) \<and>
        candidate4 \<notin> set (gold_stocks sliders_low_debt [candidate4])"
    using quality_gate_accepts_iff[of "[candidate4]" candidate4 sliders_low_debt] f(2)
    by (simp add: candidate4_def sliders_low_debt_def)
  moreover have "candidate_debt_10 \<in> set (rejected sliders_debt_01 [candidate_debt_10])"
    using quality_gate_accepts_iff[of "[candidate_debt_10]" candidate_debt_10 sliders_debt_01] f(3)
    by (simp add: candidate_debt_10_def)
  moreover have "candidate_debt_110 \<in> set (gold_stocks sliders_debt_11 [candidate_debt_110])"
    using quality_gate_accepts_iff[of "[candidate_debt_110]" candidate_debt_110 sliders_debt_11] f(4)
    by (simp add: candidate_debt_110_def sliders_debt_11_def)
  ultimately show ?thesis by simp
qed

lemma gold_stocks_idem: "gold_stocks th (gold_stocks th tp) = gold_stocks th tp"
  by (simp add: gold_stocks_def)

text \<open>
  C8. Applying the slider filters twice with the same thresholds gives the same state
  as applying them once; applying them with new thresholds after old ones gives what the
  new thresholds alone give; the stored candidates are never changed, and every accepted
  or rejected row is one of them; no row is both accepted and rejected. With distinct
  index labels the two groups cover the candidates, and a candidate whose P/E is zero or
  negative is rejected whatever the P/E ceiling is set to.
\<close>

theorem quality_gate_pure:
  "apply_slider_filters th (apply_slider_filters th s) = apply_slider_filters th s \<and>
   apply_slider_filters th' (apply_slider_filters th s) = apply_slider_filters th' s \<and>
   top_picks_df (apply_slider_filters th s) = top_picks_df s \<and>
   set (gold_df (apply_slider_filters th s)) \<subseteq> set (top_picks_df s) \<and>
   set (rejected_df (apply_slider_filters th s)) \<subseteq> set (top_picks_df s) \<and>
   set (gold_df (apply_slider_filters th s)) \<inter> set (rejected_df (apply_slider_filters th s)) = {} \<and>
   (distinct (map idx (top_picks_df s)) \<longrightarrow>
      set (gold_df (apply_slider_filters th s)) \<union> set (rejected_df (apply_slider_filters th s)) =
        set (top_picks_df s) \<and>
      (\<forall>c\<in>set (top_picks_df s). pe c \<le> 0 \<longrightarrow>
         (\<forall>x. c \<in> set (rejected_df (apply_slider_filters (th\<lparr>pe_limit := x\<rparr>) s)) \<and>
              c \<notin> set (gold_df (apply_slider_filters (th\<lparr>pe_limit := x\<rparr>) s)))))"
proof -
  have d: "set (gold_stocks th tp) \<inter> set (rejected th tp) = {}" for tp
    by (auto simp: rejected_def)
  have u: "distinct (map idx tp) \<Longrightarrow> set (gold_stocks th tp) \<union> set (rejected th tp) = set tp" for tp
    by (auto simp: in_gold_iff in_rejected_iff)
  have p: "distinct (map idx tp) \<Longrightarrow> c \<in> set tp \<Longrightarrow> pe c \<le> 0 \<Longrightarrow>
      c \<in> set (rejected (th\<lparr>pe_limit := x\<rparr>) tp) \<and> c \<notin> set (gold_stocks (th\<lparr>pe_limit := x\<rparr>) tp)"
    for tp c x
    by (auto simp: in_gold_iff in_rejected_iff passes_def)
  show ?thesis
    using d[of "top_picks_df s"] u[of "top_picks_df s"] p[of "top_picks_df s"]
    by (auto simp: apply_slider_filters_def in_gold_iff rejected_def)
qed

theorem quality_gate_pure_witness:
  "distinct (map idx (top_picks_df scanned_example)) \<and>
   candidate_bad \<in> set (top_picks_df scanned_example) \<and> pe candidate_bad \<le> 0 \<and>
   candidate_bad \<in> set (rejected_df (apply_slider_filters (sliders_default\<lparr>pe_limit := 100\<rparr>) scanned_example)) \<and>
   candidate_bad \<in> set (rejected_df (apply_slider_filters (sliders_default\<lparr>pe_limit := 10\<rparr>) scanned_example)) \<and>
   top_picks_df (apply_slider_filters sliders_low_debt (apply_slider_filters sliders_default scanned_example)) =
     top_picks_df scanned_example"
proof -
  have a: "distinct (map idx (top_picks_df scanned_example))"
    "candidate_bad \<in> set (top_picks_df scanned_example)" "pe candidate_bad \<le> 0"
    by (simp_all add: scanned_example_def deep_scan_example candidate_bad_def)
  from quality_gate_pure[of sliders_default scanned_example sliders_low_debt] a
    quality_gate_pure[of sliders_low_debt "apply_slider_filters sliders_default scanned_example"]
  show ?thesis by auto
qed

end
